theory Spec2Isabelle
  imports Main
begin

section \<open>Python values\<close>

text \<open>
  The plugin input is decoded JSON: every value of the payload is \<open>None\<close>, a bool, a
  number, a string, a list or a dict with string keys. Numbers are integers here. A dict
  is an association list in insertion order whose keys are distinct; a lookup takes the
  binding of the key.
\<close>

datatype pyval =
    PNone
  | PBool bool
  | PInt int
  | PStr string
  | PList "pyval list"
  | PDict "(string \<times> pyval) list"

text \<open>The truth value Python gives an object in \<open>if x\<close>, \<open>not x\<close> and \<open>all\<close>.\<close>

fun truthy :: "pyval \<Rightarrow> bool" where
  "truthy PNone = False"
| "truthy (PBool b) = b"
| "truthy (PInt n) = (n \<noteq> 0)"
| "truthy (PStr s) = (s \<noteq> [])"
| "truthy (PList xs) = (xs \<noteq> [])"
| "truthy (PDict kvs) = (kvs \<noteq> [])"

text \<open>\<open>isinstance(x, str)\<close>.\<close>

fun is_str :: "pyval \<Rightarrow> bool" where
  "is_str (PStr s) = True"
| "is_str v = False"

datatype exn =
    KeyError string
  | TypeError
  | AttributeError
  | ValueError
  | OSError

text \<open>\<open>d[k]\<close>: a missing key raises KeyError, an object that is no dict TypeError.\<close>

fun subscript :: "pyval \<Rightarrow> string \<Rightarrow> exn + pyval" where
  "subscript (PDict kvs) k =
     (case map_of kvs k of None \<Rightarrow> Inl (KeyError k) | Some v \<Rightarrow> Inr v)"
| "subscript v k = Inl TypeError"

text \<open>\<open>d.get(k, default)\<close>: only a dict has the method.\<close>

definition dict_get :: "(string \<times> pyval) list \<Rightarrow> string \<Rightarrow> pyval \<Rightarrow> pyval" where
  "dict_get kvs k dflt = (case map_of kvs k of None \<Rightarrow> dflt | Some v \<Rightarrow> v)"

fun py_get :: "pyval \<Rightarrow> string \<Rightarrow> pyval \<Rightarrow> exn + pyval" where
  "py_get (PDict kvs) k dflt = Inr (dict_get kvs k dflt)"
| "py_get v k dflt = Inl AttributeError"

text \<open>\<open>for x in v\<close>: the elements of a list, the keys of a dict, the characters of a string.\<close>

fun py_iter :: "pyval \<Rightarrow> exn + pyval list" where
  "py_iter (PList xs) = Inr xs"
| "py_iter (PDict kvs) = Inr (map (\<lambda>kv. PStr (fst kv)) kvs)"
| "py_iter (PStr s) = Inr (map (\<lambda>c. PStr [c]) s)"
| "py_iter v = Inl TypeError"

section \<open>The world outside the script\<close>

text \<open>
  The script calls four things it does not define: \<open>urllib.parse.urlsplit\<close>,
  \<open>os.path.join\<close>, \<open>glob\<close> and the \<open>devpi\<close> executable through \<open>subprocess\<close>. They are
  parameters of the model. Each may raise; a child process may also never exit. The answer
  of a child process may depend on the commands started before it.
\<close>

record split_result =
  scheme :: pyval
  netloc :: pyval

record invocation =
  argv :: "pyval list"
  cwd :: "pyval option"

datatype proc_result = Completed int | Spawn_error exn | Never_exits

record env =
  urlsplit :: "pyval \<Rightarrow> exn + split_result"
  path_join :: "pyval \<Rightarrow> pyval \<Rightarrow> exn + pyval"
  glob :: "pyval \<Rightarrow> exn + pyval list"
  spawn :: "invocation list \<Rightarrow> invocation \<Rightarrow> proc_result"

text \<open>What a run leaves behind: the lines printed and the commands started, in order.\<close>

record world =
  printed :: "string list"
  issued :: "invocation list"

text \<open>
  A call returns a value, leaves through \<open>sys.exit(n)\<close>, raises, or blocks for ever on a
  child that never exits.
\<close>

datatype 'a outcome = Returned 'a | Exited int | Raised exn | Hung

type_synonym 'a prog = "world \<Rightarrow> 'a outcome \<times> world"

definition bind :: "'a prog \<Rightarrow> ('a \<Rightarrow> 'b prog) \<Rightarrow> 'b prog" where
  "bind m f w =
     (case m w of
        (Returned a, w') \<Rightarrow> f a w'
      | (Exited n, w') \<Rightarrow> (Exited n, w')
      | (Raised e, w') \<Rightarrow> (Raised e, w')
      | (Hung, w') \<Rightarrow> (Hung, w'))"

definition ret :: "'a \<Rightarrow> 'a prog" where
  "ret a w = (Returned a, w)"

definition lift :: "exn + 'a \<Rightarrow> 'a prog" where
  "lift r w = (case r of Inl e \<Rightarrow> (Raised e, w) | Inr a \<Rightarrow> (Returned a, w))"

definition print_line :: "string \<Rightarrow> unit prog" where
  "print_line s w = (Returned (), w\<lparr>printed := printed w @ [s]\<rparr>)"

definition sys_exit :: "int \<Rightarrow> 'a prog" where
  "sys_exit n w = (Exited n, w)"

text \<open>
  The status the interpreter ends with: that of \<open>sys.exit\<close>, 1 after an uncaught
  exception, 0 when the script runs to its end; none while it hangs.
\<close>

fun exit_status :: "'a outcome \<Rightarrow> int option" where
  "exit_status (Returned a) = Some 0"
| "exit_status (Exited n) = Some n"
| "exit_status (Raised e) = Some 1"
| "exit_status Hung = None"

text \<open>The handle of a finished child: \<open>CompletedProcess\<close>, or \<open>Popen\<close> after \<open>wait\<close>.\<close>

record process =
  proc_args :: "pyval list"
  returncode :: int

definition start_and_wait :: "env \<Rightarrow> pyval list \<Rightarrow> pyval option \<Rightarrow> process prog" where
  "start_and_wait E args dir w =
     (let cmd = \<lparr>argv = args, cwd = dir\<rparr>;
          w' = w\<lparr>issued := issued w @ [cmd]\<rparr>
      in case spawn E (issued w) cmd of
           Completed rc \<Rightarrow> (Returned \<lparr>proc_args = args, returncode = rc\<rparr>, w')
         | Spawn_error e \<Rightarrow> (Raised e, w')
         | Never_exits \<Rightarrow> (Hung, w'))"

text \<open>\<open>subprocess.run(args)\<close>: the child inherits the working directory.\<close>

definition subprocess_run :: "env \<Rightarrow> pyval list \<Rightarrow> process prog" where
  "subprocess_run E args = start_and_wait E args None"

text \<open>\<open>p = subprocess.Popen(args, cwd=dir); p.wait()\<close>.\<close>

definition popen_wait :: "env \<Rightarrow> pyval list \<Rightarrow> pyval \<Rightarrow> process prog" where
  "popen_wait E args dir = start_and_wait E args (Some dir)"

section \<open>run\_devpi.py\<close>

definition DEFAULT_CLIENTDIR :: pyval where
  "DEFAULT_CLIENTDIR = PStr ''/tmp/devpi-clientdir''"

text \<open>
  The decorator: \<open>wrapped\<close> calls \<open>f\<close>, leaves with status 1 when the return code is 1,
  and otherwise falls off its end, so it returns \<open>None\<close> and the handle is dropped.
\<close>

definition die_on_error :: "process prog \<Rightarrow> process option prog" where
  "die_on_error f =
     bind f (\<lambda>result. if returncode result = 1 then sys_exit 1 else ret None)"

definition select_server_body :: "env \<Rightarrow> pyval \<Rightarrow> pyval \<Rightarrow> process prog" where
  "select_server_body E server clientdir =
     subprocess_run E [PStr ''devpi'', PStr ''use'', PStr ''--clientdir'', clientdir, server]"

definition select_server :: "env \<Rightarrow> pyval \<Rightarrow> pyval \<Rightarrow> process option prog" where
  "select_server E server clientdir = die_on_error (select_server_body E server clientdir)"

definition login_body :: "env \<Rightarrow> pyval \<Rightarrow> pyval \<Rightarrow> pyval \<Rightarrow> process prog" where
  "login_body E username password clientdir =
     subprocess_run E
       [PStr ''devpi'', PStr ''login'', PStr ''--clientdir'', clientdir,
        username, PStr ''--password'', password]"

definition login :: "env \<Rightarrow> pyval \<Rightarrow> pyval \<Rightarrow> pyval \<Rightarrow> process option prog" where
  "login E username password clientdir = die_on_error (login_body E username password clientdir)"

definition select_index_body :: "env \<Rightarrow> pyval \<Rightarrow> pyval \<Rightarrow> process prog" where
  "select_index_body E index clientdir =
     subprocess_run E [PStr ''devpi'', PStr ''use'', PStr ''--clientdir'', clientdir, index]"

definition select_index :: "env \<Rightarrow> pyval \<Rightarrow> pyval \<Rightarrow> process option prog" where
  "select_index E index clientdir = die_on_error (select_index_body E index clientdir)"

definition create_index_body :: "env \<Rightarrow> pyval \<Rightarrow> pyval \<Rightarrow> process prog" where
  "create_index_body E index clientdir =
     subprocess_run E
       [PStr ''devpi'', PStr ''index'', PStr ''--clientdir'', clientdir, PStr ''-c'', index]"

definition create_index :: "env \<Rightarrow> pyval \<Rightarrow> pyval \<Rightarrow> process option prog" where
  "create_index E index clientdir = die_on_error (create_index_body E index clientdir)"

text \<open>The inner loop of \<open>expand_files\<close>: every match is appended to \<open>files\<close>.\<close>

fun append_each :: "pyval list \<Rightarrow> pyval list \<Rightarrow> pyval list" where
  "append_each files [] = files"
| "append_each files (filename # rest) = append_each (files @ [filename]) rest"

text \<open>The outer loop: join the pattern with the path, glob it, collect the matches.\<close>

fun expand_loop :: "env \<Rightarrow> pyval \<Rightarrow> pyval list \<Rightarrow> pyval list \<Rightarrow> exn + pyval list" where
  "expand_loop E path [] files = Inr files"
| "expand_loop E path (pattern # rest) files =
     (case path_join E path pattern of
        Inl e \<Rightarrow> Inl e
      | Inr joined \<Rightarrow>
          (case glob E joined of
             Inl e \<Rightarrow> Inl e
           | Inr names \<Rightarrow> expand_loop E path rest (append_each files names)))"

definition expand_files :: "env \<Rightarrow> pyval \<Rightarrow> pyval \<Rightarrow> exn + pyval list" where
  "expand_files E path patterns =
     (let patterns' = (if is_str patterns then PList [patterns] else patterns)
      in case py_iter patterns' of
           Inl e \<Rightarrow> Inl e
         | Inr ps \<Rightarrow> expand_loop E path ps [])"

definition upload_base :: "pyval \<Rightarrow> pyval list" where
  "upload_base clientdir =
     [PStr ''devpi'', PStr ''upload'', PStr ''--clientdir'', clientdir,
      PStr ''--from-dir'', PStr ''--no-vcs'']"

definition upload_package_body :: "env \<Rightarrow> pyval \<Rightarrow> pyval \<Rightarrow> pyval \<Rightarrow> process prog" where
  "upload_package_body E path clientdir files =
     bind (if truthy files
           then bind (lift (expand_files E path files))
                  (\<lambda>expanded. ret (upload_base clientdir @ expanded))
           else ret (upload_base clientdir))
       (\<lambda>cmd. popen_wait E cmd path)"

definition upload_package :: "env \<Rightarrow> pyval \<Rightarrow> pyval \<Rightarrow> pyval \<Rightarrow> process option prog" where
  "upload_package E path clientdir files =
     die_on_error (upload_package_body E path clientdir files)"

definition msg_server :: string where
  "msg_server =
     ''You must specify the full, absolute URI to your devpi server (including protocol).''"

definition msg_index :: string where
  "msg_index = ''You must specify an index on your devpi server to upload to.''"

definition msg_username :: string where
  "msg_username = ''You must specify a username to upload packages as.''"

definition msg_password :: string where
  "msg_password = ''You must specify a password.''"

definition fail_with :: "string \<Rightarrow> unit prog" where
  "fail_with msg = bind (print_line msg) (\<lambda>_. sys_exit 1)"

definition check_vargs :: "env \<Rightarrow> pyval \<Rightarrow> unit prog" where
  "check_vargs E vargs =
     bind (lift (py_get vargs ''server'' (PStr ''''))) (\<lambda>server_uri.
     bind (lift (urlsplit E server_uri)) (\<lambda>parsed.
     if \<not> (truthy (scheme parsed) \<and> truthy (netloc parsed)) then fail_with msg_server
     else
     bind (lift (py_get vargs ''index'' PNone)) (\<lambda>index.
     if \<not> truthy index then fail_with msg_index
     else
     bind (lift (py_get vargs ''username'' PNone)) (\<lambda>username.
     if \<not> truthy username then fail_with msg_username
     else
     bind (lift (py_get vargs ''password'' PNone)) (\<lambda>password.
     if password = PNone then fail_with msg_password
     else ret ())))))"

text \<open>\<open>main\<close>, from the payload that \<open>drone.plugin.get_input()\<close> returned.\<close>

definition main :: "env \<Rightarrow> pyval \<Rightarrow> process option prog" where
  "main E payload =
     bind (lift (subscript payload ''vargs'')) (\<lambda>vargs.
     bind (check_vargs E vargs) (\<lambda>_.
     bind (lift (subscript vargs ''server'')) (\<lambda>server.
     bind (select_server E server DEFAULT_CLIENTDIR) (\<lambda>_.
     bind (lift (subscript vargs ''username'')) (\<lambda>username.
     bind (lift (subscript vargs ''password'')) (\<lambda>password.
     bind (login E username password DEFAULT_CLIENTDIR) (\<lambda>_.
     bind (lift (subscript vargs ''index'')) (\<lambda>index.
     bind (select_index E index DEFAULT_CLIENTDIR) (\<lambda>_.
     bind (lift (subscript payload ''workspace'')) (\<lambda>workspace.
     bind (lift (subscript workspace ''path'')) (\<lambda>path.
     bind (lift (py_get vargs ''files'' PNone)) (\<lambda>files.
     upload_package E path DEFAULT_CLIENTDIR files))))))))))))"

text \<open>The last statement of \<open>main\<close>, once \<open>files\<close> has been read from the dict \<open>vargs\<close>.\<close>

definition upload_step :: "env \<Rightarrow> pyval \<Rightarrow> pyval \<Rightarrow> process option prog" where
  "upload_step E payload files =
     bind (lift (subscript payload ''workspace'')) (\<lambda>workspace.
     bind (lift (subscript workspace ''path'')) (\<lambda>path.
     upload_package E path DEFAULT_CLIENTDIR files))"

text \<open>The file names the upload command gets: none unless \<open>files\<close> is truthy.\<close>

definition upload_names :: "env \<Rightarrow> pyval \<Rightarrow> pyval \<Rightarrow> exn + pyval list" where
  "upload_names E path files = (if truthy files then expand_files E path files else Inr [])"

section \<open>The command lines\<close>

text \<open>
  The invocations the statements below speak of: \<open>devpi use\<close> (for a server or an index),
  \<open>devpi login\<close>, \<open>devpi index -c\<close> and \<open>devpi upload\<close>. The lemmas of the section on how
  the pieces run show that the functions above start exactly these.
\<close>

definition use_invocation :: "pyval \<Rightarrow> pyval \<Rightarrow> invocation" where
  "use_invocation clientdir target =
     \<lparr>argv = [PStr ''devpi'', PStr ''use'', PStr ''--clientdir'', clientdir, target],
      cwd = None\<rparr>"

definition login_invocation :: "pyval \<Rightarrow> pyval \<Rightarrow> pyval \<Rightarrow> invocation" where
  "login_invocation clientdir username password =
     \<lparr>argv = [PStr ''devpi'', PStr ''login'', PStr ''--clientdir'', clientdir,
              username, PStr ''--password'', password],
      cwd = None\<rparr>"

definition create_index_invocation :: "pyval \<Rightarrow> pyval \<Rightarrow> invocation" where
  "create_index_invocation clientdir index =
     \<lparr>argv = [PStr ''devpi'', PStr ''index'', PStr ''--clientdir'', clientdir,
              PStr ''-c'', index],
      cwd = None\<rparr>"

definition upload_invocation :: "pyval \<Rightarrow> pyval \<Rightarrow> pyval list \<Rightarrow> invocation" where
  "upload_invocation clientdir path filenames =
     \<lparr>argv = [PStr ''devpi'', PStr ''upload'', PStr ''--clientdir'', clientdir,
              PStr ''--from-dir'', PStr ''--no-vcs''] @ filenames,
      cwd = Some path\<rparr>"

text \<open>The world after more commands have been started.\<close>

definition started :: "world \<Rightarrow> invocation list \<Rightarrow> world" where
  "started w invs = w\<lparr>issued := issued w @ invs\<rparr>"

text \<open>The second word of a command line: \<open>use\<close>, \<open>login\<close>, \<open>index\<close> or \<open>upload\<close>.\<close>

definition verb :: "invocation \<Rightarrow> pyval option" where
  "verb cmd = (case argv cmd of a # b # rest \<Rightarrow> Some b | _ \<Rightarrow> None)"

definition driver_verb :: "invocation \<Rightarrow> bool" where
  "driver_verb cmd =
     (verb cmd = Some (PStr ''use'') \<or> verb cmd = Some (PStr ''login'')
      \<or> verb cmd = Some (PStr ''upload''))"

text \<open>A program that starts only commands satisfying \<open>P\<close>, whatever world it runs in.\<close>

definition starts_only :: "(invocation \<Rightarrow> bool) \<Rightarrow> 'a prog \<Rightarrow> bool" where
  "starts_only P m =
     (\<forall>w. \<exists>new. issued (snd (m w)) = issued w @ new \<and> list_all P new)"

section \<open>A concrete world\<close>

text \<open>
  An instance of the environment, to run the script on concrete payloads. Its URL splitter
  follows the library's algorithm for the scheme and the network location of an ASCII
  string without control characters: the scheme is the text before the first colon when
  that text is non-empty, starts with a letter and has only scheme characters, and it is
  lowercased; the network location is what follows a leading \<open>//\<close> up to the first of
  \<open>/\<close>, \<open>?\<close>, \<open>#\<close>; a network location with one square bracket and not the other raises
  ValueError ("Invalid IPv6 URL"). The further checks the library makes on a bracketed host
  are left out. Its path join is \<open>posixpath.join\<close> on two strings. Its file system is a
  table from glob patterns to their matches, and its child processes answer with the
  return codes of a list, in order of starting, and with 0 afterwards.
\<close>

definition scheme_chars :: string where
  "scheme_chars = ''abcdefghijklmnopqrstuvwxyzABCDEFGHIJKLMNOPQRSTUVWXYZ0123456789+-.''"

definition ascii_letters :: string where
  "ascii_letters = ''abcdefghijklmnopqrstuvwxyzABCDEFGHIJKLMNOPQRSTUVWXYZ''"

definition ascii_lower :: "char \<Rightarrow> char" where
  "ascii_lower c =
     (case map_of (zip ''ABCDEFGHIJKLMNOPQRSTUVWXYZ'' ''abcdefghijklmnopqrstuvwxyz'') c of
        None \<Rightarrow> c
      | Some l \<Rightarrow> l)"

definition urlsplit_str :: "string \<Rightarrow> exn + split_result" where
  "urlsplit_str url =
     (let head = takeWhile (\<lambda>c. c \<noteq> CHR '':'') url;
          has_scheme =
            (head \<noteq> [] \<and> length head < length url
             \<and> (case url of [] \<Rightarrow> False | c # cs \<Rightarrow> c \<in> set ascii_letters)
             \<and> list_all (\<lambda>c. c \<in> set scheme_chars) head);
          sch = (if has_scheme then map ascii_lower head else []);
          rest = (if has_scheme then drop (length head + 1) url else url);
          loc = (if take 2 rest = ''//''
                 then takeWhile (\<lambda>c. c \<notin> set ''/?#'') (drop 2 rest)
                 else [])
      in if (CHR ''['' \<in> set loc \<and> CHR '']'' \<notin> set loc)
            \<or> (CHR '']'' \<in> set loc \<and> CHR ''['' \<notin> set loc)
         then Inl ValueError
         else Inr \<lparr>scheme = PStr sch, netloc = PStr loc\<rparr>)"

fun urlsplit_model :: "pyval \<Rightarrow> exn + split_result" where
  "urlsplit_model (PStr url) = urlsplit_str url"
| "urlsplit_model v = Inl TypeError"

definition posix_join_str :: "string \<Rightarrow> string \<Rightarrow> string" where
  "posix_join_str a b =
     (if take 1 b = ''/'' then b
      else if a = [] \<or> last a = CHR ''/'' then a @ b
      else a @ ''/'' @ b)"

fun posix_join :: "pyval \<Rightarrow> pyval \<Rightarrow> exn + pyval" where
  "posix_join (PStr a) (PStr b) = Inr (PStr (posix_join_str a b))"
| "posix_join a b = Inl TypeError"

fun glob_table :: "(string \<times> string list) list \<Rightarrow> pyval \<Rightarrow> exn + pyval list" where
  "glob_table tbl (PStr pattern) =
     Inr (map PStr (case map_of tbl pattern of None \<Rightarrow> [] | Some names \<Rightarrow> names))"
| "glob_table tbl v = Inl TypeError"

definition answers :: "int list \<Rightarrow> invocation list \<Rightarrow> invocation \<Rightarrow> proc_result" where
  "answers rcs history cmd =
     (if length history < length rcs then Completed (rcs ! length history) else Completed 0)"

definition script_env :: "(string \<times> string list) list \<Rightarrow> int list \<Rightarrow> env" where
  "script_env tbl rcs =
     \<lparr>urlsplit = urlsplit_model, path_join = posix_join, glob = glob_table tbl,
      spawn = answers rcs\<rparr>"

definition wheels :: "(string \<times> string list) list" where
  "wheels = [(''/ws/*.whl'', [''/ws/a.whl'', ''/ws/b.whl'']), (''/ws/a*'', [''/ws/a.whl''])]"

definition sample_vargs :: "(string \<times> pyval) list" where
  "sample_vargs =
     [(''server'', PStr ''https://pkg.example.com''), (''index'', PStr ''root/dev''),
      (''username'', PStr ''ci''), (''password'', PStr ''''),
      (''files'', PList [PStr ''*.whl'', PStr ''a*''])]"

definition sample_payload :: "(string \<times> pyval) list" where
  "sample_payload =
     [(''vargs'', PDict sample_vargs), (''workspace'', PDict [(''path'', PStr ''/ws'')])]"

definition w0 :: world where
  "w0 = \<lparr>printed = [], issued = []\<rparr>"

section \<open>How the pieces run\<close>

lemma append_each_eq: "append_each files names = files @ names"
  by (induction names arbitrary: files) simp_all

lemma bind_lift_Inr: "bind (lift (Inr a)) f = f a"
  by (rule ext) (simp add: bind_def lift_def)

lemma bind_lift_Inl: "bind (lift (Inl e)) f w = (Raised e, w)"
  by (simp add: bind_def lift_def)

lemma bind_ret: "bind (ret a) f = f a"
  by (rule ext) (simp add: bind_def ret_def)

lemma fail_with_eq: "fail_with msg w = (Exited 1, w\<lparr>printed := printed w @ [msg]\<rparr>)"
  by (simp add: fail_with_def bind_def print_line_def sys_exit_def)

lemma started_started: "started (started w xs) ys = started w (xs @ ys)"
  by (simp add: started_def)

lemma issued_started: "issued (started w xs) = issued w @ xs"
  by (simp add: started_def)

lemma printed_started: "printed (started w xs) = printed w"
  by (simp add: started_def)

text \<open>A decorated call of one command: the command is started, and only return code 1 exits.\<close>

lemma die_on_error_start:
  "die_on_error (start_and_wait E args dir) w =
     (case spawn E (issued w) \<lparr>argv = args, cwd = dir\<rparr> of
        Completed rc \<Rightarrow>
          (if rc = 1 then Exited 1 else Returned None, started w [\<lparr>argv = args, cwd = dir\<rparr>])
      | Spawn_error e \<Rightarrow> (Raised e, started w [\<lparr>argv = args, cwd = dir\<rparr>])
      | Never_exits \<Rightarrow> (Hung, started w [\<lparr>argv = args, cwd = dir\<rparr>]))"
  by (simp add: die_on_error_def start_and_wait_def bind_def Let_def sys_exit_def ret_def
      started_def split: proc_result.splits)

lemma select_server_eq:
  "select_server E server clientdir w =
     (case spawn E (issued w) (use_invocation clientdir server) of
        Completed rc \<Rightarrow>
          (if rc = 1 then Exited 1 else Returned None, started w [use_invocation clientdir server])
      | Spawn_error e \<Rightarrow> (Raised e, started w [use_invocation clientdir server])
      | Never_exits \<Rightarrow> (Hung, started w [use_invocation clientdir server]))"
  unfolding select_server_def select_server_body_def subprocess_run_def use_invocation_def
  by (rule die_on_error_start)

lemma login_eq:
  "login E username password clientdir w =
     (case spawn E (issued w) (login_invocation clientdir username password) of
        Completed rc \<Rightarrow>
          (if rc = 1 then Exited 1 else Returned None,
           started w [login_invocation clientdir username password])
      | Spawn_error e \<Rightarrow> (Raised e, started w [login_invocation clientdir username password])
      | Never_exits \<Rightarrow> (Hung, started w [login_invocation clientdir username password]))"
  unfolding login_def login_body_def subprocess_run_def login_invocation_def
  by (rule die_on_error_start)

lemma select_index_eq:
  "select_index E index clientdir w =
     (case spawn E (issued w) (use_invocation clientdir index) of
        Completed rc \<Rightarrow>
          (if rc = 1 then Exited 1 else Returned None, started w [use_invocation clientdir index])
      | Spawn_error e \<Rightarrow> (Raised e, started w [use_invocation clientdir index])
      | Never_exits \<Rightarrow> (Hung, started w [use_invocation clientdir index]))"
  unfolding select_index_def select_index_body_def subprocess_run_def use_invocation_def
  by (rule die_on_error_start)

lemma create_index_eq:
  "create_index E index clientdir w =
     (case spawn E (issued w) (create_index_invocation clientdir index) of
        Completed rc \<Rightarrow>
          (if rc = 1 then Exited 1 else Returned None,
           started w [create_index_invocation clientdir index])
      | Spawn_error e \<Rightarrow> (Raised e, started w [create_index_invocation clientdir index])
      | Never_exits \<Rightarrow> (Hung, started w [create_index_invocation clientdir index]))"
  unfolding create_index_def create_index_body_def subprocess_run_def
    create_index_invocation_def
  by (rule die_on_error_start)

lemma upload_package_eq:
  "upload_package E path clientdir files w =
     (case upload_names E path files of
        Inl e \<Rightarrow> (Raised e, w)
      | Inr names \<Rightarrow>
          (case spawn E (issued w) (upload_invocation clientdir path names) of
             Completed rc \<Rightarrow>
               (if rc = 1 then Exited 1 else Returned None,
                started w [upload_invocation clientdir path names])
           | Spawn_error e \<Rightarrow> (Raised e, started w [upload_invocation clientdir path names])
           | Never_exits \<Rightarrow> (Hung, started w [upload_invocation clientdir path names])))"
proof (cases "upload_names E path files")
  case (Inl e)
  then have "upload_package_body E path clientdir files w = (Raised e, w)"
    by (simp add: upload_package_body_def upload_names_def bind_def lift_def
        split: if_splits)
  then show ?thesis
    using Inl by (simp add: upload_package_def die_on_error_def bind_def)
next
  case (Inr names)
  then have "upload_package_body E path clientdir files =
      start_and_wait E (upload_base clientdir @ names) (Some path)"
    by (auto simp: upload_package_body_def upload_names_def bind_def lift_def ret_def
        popen_wait_def fun_eq_iff split: if_splits)
  then have "upload_package E path clientdir files w =
      die_on_error (start_and_wait E (upload_base clientdir @ names) (Some path)) w"
    by (simp add: upload_package_def)
  then show ?thesis
    unfolding upload_invocation_def upload_base_def Inr
    by (simp add: die_on_error_start split: proc_result.split)
qed

text \<open>The validator on a dict, check by check.\<close>

lemma check_vargs_dict:
  "check_vargs E (PDict d) w =
     (case urlsplit E (dict_get d ''server'' (PStr '''')) of
        Inl e \<Rightarrow> (Raised e, w)
      | Inr parsed \<Rightarrow>
          if \<not> (truthy (scheme parsed) \<and> truthy (netloc parsed))
          then (Exited 1, w\<lparr>printed := printed w @ [msg_server]\<rparr>)
          else if \<not> truthy (dict_get d ''index'' PNone)
          then (Exited 1, w\<lparr>printed := printed w @ [msg_index]\<rparr>)
          else if \<not> truthy (dict_get d ''username'' PNone)
          then (Exited 1, w\<lparr>printed := printed w @ [msg_username]\<rparr>)
          else if dict_get d ''password'' PNone = PNone
          then (Exited 1, w\<lparr>printed := printed w @ [msg_password]\<rparr>)
          else (Returned (), w))"
  by (simp add: check_vargs_def bind_lift_Inr bind_lift_Inl fail_with_eq ret_def
      split: sum.splits)

text \<open>Facts about the dict \<open>vargs\<close>, the expansion of patterns and the run of \<open>main\<close>.\<close>

lemma truthy_not_None: "truthy v \<Longrightarrow> v \<noteq> PNone"
  by (cases v) simp_all

lemma subscript_dict_get:
  "dict_get d k PNone \<noteq> PNone \<Longrightarrow> subscript (PDict d) k = Inr (dict_get d k PNone)"
  by (simp add: dict_get_def split: option.splits)

lemma check_vargs_accepts:
  assumes "check_vargs E (PDict d) w = (Returned (), w')"
  shows "truthy (dict_get d ''index'' PNone)" and "truthy (dict_get d ''username'' PNone)"
    and "dict_get d ''password'' PNone \<noteq> PNone" and "w' = w"
  using assms by (auto simp: check_vargs_dict split: sum.splits if_splits)

lemma expand_loop_ok:
  "map (path_join E path) ps = map Inr qs \<Longrightarrow> map (glob E) qs = map Inr fss \<Longrightarrow>
   expand_loop E path ps acc = Inr (acc @ concat fss)"
proof (induction ps arbitrary: qs fss acc)
  case Nil
  then show ?case by simp
next
  case (Cons p ps)
  from Cons.prems(1) obtain q qs' where qs: "qs = q # qs'" and q: "path_join E path p = Inr q"
    and rest: "map (path_join E path) ps = map Inr qs'"
    by (cases qs) auto
  from Cons.prems(2) qs obtain fs fss' where fss: "fss = fs # fss'" and fs: "glob E q = Inr fs"
    and rest': "map (glob E) qs' = map Inr fss'"
    by (cases fss) auto
  show ?case
    using Cons.IH [OF rest rest', of "acc @ fs"] q fs fss
    by (simp add: append_each_eq)
qed

lemma expand_files_list:
  "map (path_join E path) ps = map Inr qs \<Longrightarrow> map (glob E) qs = map Inr fss \<Longrightarrow>
   expand_files E path (PList ps) = Inr (concat fss)"
  using expand_loop_ok [of E path ps qs fss "[]"] by (simp add: expand_files_def)

lemma expand_files_str: "expand_files E path (PStr s) = expand_files E path (PList [PStr s])"
  by (simp add: expand_files_def)

lemma main_valid:
  assumes vargs: "map_of p ''vargs'' = Some (PDict d)"
    and ok: "check_vargs E (PDict d) w = (Returned (), w)"
    and server: "map_of d ''server'' = Some server"
  shows "main E (PDict p) w =
     bind (select_server E server DEFAULT_CLIENTDIR) (\<lambda>_.
     bind (login E (dict_get d ''username'' PNone) (dict_get d ''password'' PNone)
             DEFAULT_CLIENTDIR) (\<lambda>_.
     bind (select_index E (dict_get d ''index'' PNone) DEFAULT_CLIENTDIR) (\<lambda>_.
     upload_step E (PDict p) (dict_get d ''files'' PNone)))) w"
proof -
  have u: "subscript (PDict d) ''username'' = Inr (dict_get d ''username'' PNone)"
    using check_vargs_accepts(2) [OF ok] by (intro subscript_dict_get truthy_not_None)
  have i: "subscript (PDict d) ''index'' = Inr (dict_get d ''index'' PNone)"
    using check_vargs_accepts(1) [OF ok] by (intro subscript_dict_get truthy_not_None)
  have pw: "subscript (PDict d) ''password'' = Inr (dict_get d ''password'' PNone)"
    using check_vargs_accepts(3) [OF ok] by (intro subscript_dict_get)
  have s: "subscript (PDict d) ''server'' = Inr server"
    using server by simp
  have "main E (PDict p) w =
      bind (check_vargs E (PDict d)) (\<lambda>_.
      bind (lift (subscript (PDict d) ''server'')) (\<lambda>server.
      bind (select_server E server DEFAULT_CLIENTDIR) (\<lambda>_.
      bind (lift (subscript (PDict d) ''username'')) (\<lambda>username.
      bind (lift (subscript (PDict d) ''password'')) (\<lambda>password.
      bind (login E username password DEFAULT_CLIENTDIR) (\<lambda>_.
      bind (lift (subscript (PDict d) ''index'')) (\<lambda>index.
      bind (select_index E index DEFAULT_CLIENTDIR) (\<lambda>_.
      upload_step E (PDict p) (dict_get d ''files'' PNone))))))))) w"
  proof -
    have sv: "subscript (PDict p) ''vargs'' = Inr (PDict d)"
      using vargs by simp
    show ?thesis
      unfolding main_def upload_step_def sv
      by (simp only: bind_lift_Inr py_get.simps)
  qed
  also have "\<dots> = bind (select_server E server DEFAULT_CLIENTDIR) (\<lambda>_.
     bind (login E (dict_get d ''username'' PNone) (dict_get d ''password'' PNone)
             DEFAULT_CLIENTDIR) (\<lambda>_.
     bind (select_index E (dict_get d ''index'' PNone) DEFAULT_CLIENTDIR) (\<lambda>_.
     upload_step E (PDict p) (dict_get d ''files'' PNone)))) w"
    unfolding u i pw s
    by (simp add: bind_def [of "check_vargs E (PDict d)"] ok bind_lift_Inr [abs_def])
  finally show ?thesis .
qed


lemma main_run:
  assumes vargs: "map_of p ''vargs'' = Some (PDict d)"
    and ok: "check_vargs E (PDict d) w = (Returned (), w)"
    and server: "map_of d ''server'' = Some server"
    and c1: "c1 = use_invocation DEFAULT_CLIENTDIR server"
    and c2: "c2 = login_invocation DEFAULT_CLIENTDIR (dict_get d ''username'' PNone)
                    (dict_get d ''password'' PNone)"
    and c3: "c3 = use_invocation DEFAULT_CLIENTDIR (dict_get d ''index'' PNone)"
  shows "main E (PDict p) w =
     (case spawn E (issued w) c1 of
        Spawn_error e \<Rightarrow> (Raised e, started w [c1])
      | Never_exits \<Rightarrow> (Hung, started w [c1])
      | Completed r1 \<Rightarrow>
          if r1 = 1 then (Exited 1, started w [c1])
          else
            (case spawn E (issued w @ [c1]) c2 of
               Spawn_error e \<Rightarrow> (Raised e, started w [c1, c2])
             | Never_exits \<Rightarrow> (Hung, started w [c1, c2])
             | Completed r2 \<Rightarrow>
                 if r2 = 1 then (Exited 1, started w [c1, c2])
                 else
                   (case spawn E (issued w @ [c1, c2]) c3 of
                      Spawn_error e \<Rightarrow> (Raised e, started w [c1, c2, c3])
                    | Never_exits \<Rightarrow> (Hung, started w [c1, c2, c3])
                    | Completed r3 \<Rightarrow>
                        if r3 = 1 then (Exited 1, started w [c1, c2, c3])
                        else upload_step E (PDict p) (dict_get d ''files'' PNone)
                               (started w [c1, c2, c3]))))"
  unfolding main_valid [OF vargs ok server] c1 c2 c3
  by (simp add: bind_def select_server_eq login_eq select_index_eq issued_started
      started_started split: proc_result.splits)

lemma upload_step_eq:
  assumes "map_of p ''workspace'' = Some (PDict ws)" and "map_of ws ''path'' = Some path"
  shows "upload_step E (PDict p) files = upload_package E path DEFAULT_CLIENTDIR files"
  using assms by (simp add: upload_step_def bind_lift_Inr)

text \<open>How \<open>main\<close> begins, the ways the validator can end, and the concrete URL splitter.\<close>

lemma main_until_server:
  assumes "map_of p ''vargs'' = Some (PDict d)"
  shows "\<exists>K. main E (PDict p) =
     bind (check_vargs E (PDict d)) (\<lambda>_. bind (lift (subscript (PDict d) ''server'')) K)"
proof -
  have sv: "subscript (PDict p) ''vargs'' = Inr (PDict d)"
    using assms by simp
  show ?thesis
    unfolding main_def sv bind_lift_Inr by (intro exI) (rule refl)
qed

lemma check_vargs_cases:
  "(\<exists>e. urlsplit E (dict_get d ''server'' (PStr '''')) = Inl e
        \<and> check_vargs E (PDict d) w = (Raised e, w))
   \<or> (\<exists>msg \<in> {msg_server, msg_index, msg_username, msg_password}.
        check_vargs E (PDict d) w = (Exited 1, w\<lparr>printed := printed w @ [msg]\<rparr>))
   \<or> check_vargs E (PDict d) w = (Returned (), w)"
  by (simp add: check_vargs_dict split: sum.splits)

lemma urlsplit_str_https:
  "urlsplit_str ''https://pkg.example.com'' =
     Inr \<lparr>scheme = PStr ''https'', netloc = PStr ''pkg.example.com''\<rparr>"
  by (simp add: urlsplit_str_def Let_def scheme_chars_def ascii_letters_def ascii_lower_def)

lemma urlsplit_str_empty: "urlsplit_str '''' = Inr \<lparr>scheme = PStr '''', netloc = PStr ''''\<rparr>"
  by (simp add: urlsplit_str_def)

lemma urlsplit_str_bracket: "urlsplit_str ''http://['' = Inl ValueError"
  by (simp add: urlsplit_str_def Let_def scheme_chars_def ascii_letters_def ascii_lower_def)

text \<open>Which commands a program can start, and the sample payload in the concrete world.\<close>

lemma starts_only_bind:
  assumes "starts_only P m" and "\<And>a. starts_only P (f a)"
  shows "starts_only P (bind m f)"
  unfolding starts_only_def
proof
  fix w
  obtain new where new: "issued (snd (m w)) = issued w @ new" "list_all P new"
    using assms(1) unfolding starts_only_def by blast
  show "\<exists>new. issued (snd (bind m f w)) = issued w @ new \<and> list_all P new"
  proof (cases "m w")
    case (Pair r w')
    show ?thesis
    proof (cases r)
      case (Returned a)
      obtain new' where "issued (snd (f a w')) = issued w' @ new'" "list_all P new'"
        using assms(2) [of a] unfolding starts_only_def by blast
      then have "issued (snd (bind m f w)) = issued w @ (new @ new')" "list_all P (new @ new')"
        using new Pair Returned by (simp_all add: bind_def)
      then show ?thesis by blast
    qed (use new Pair in \<open>auto simp: bind_def\<close>)
  qed
qed

lemma starts_only_lift: "starts_only P (lift r)"
  by (auto simp: starts_only_def lift_def split: sum.splits)

lemma starts_only_ret: "starts_only P (ret a)"
  by (simp add: starts_only_def ret_def)

lemma starts_only_fail_with: "starts_only P (fail_with msg)"
  by (simp add: starts_only_def fail_with_eq)

lemma starts_only_if:
  "starts_only P a \<Longrightarrow> starts_only P b \<Longrightarrow> starts_only P (if c then a else b)"
  by simp

lemma starts_only_check_vargs: "starts_only P (check_vargs E vargs)"
  unfolding check_vargs_def
  by (intro starts_only_bind starts_only_lift starts_only_if starts_only_fail_with
      starts_only_ret)

lemma starts_only_die_start:
  "P \<lparr>argv = args, cwd = dir\<rparr> \<Longrightarrow> starts_only P (die_on_error (start_and_wait E args dir))"
  by (auto simp: starts_only_def die_on_error_start issued_started split: proc_result.splits)

lemma starts_only_select_server: "starts_only driver_verb (select_server E server clientdir)"
  unfolding select_server_def select_server_body_def subprocess_run_def
  by (rule starts_only_die_start) (simp add: driver_verb_def verb_def)

lemma starts_only_login: "starts_only driver_verb (login E username password clientdir)"
  unfolding login_def login_body_def subprocess_run_def
  by (rule starts_only_die_start) (simp add: driver_verb_def verb_def)

lemma starts_only_select_index: "starts_only driver_verb (select_index E index clientdir)"
  unfolding select_index_def select_index_body_def subprocess_run_def
  by (rule starts_only_die_start) (simp add: driver_verb_def verb_def)

lemma starts_only_upload_package: "starts_only driver_verb (upload_package E path clientdir files)"
  by (auto simp: starts_only_def upload_package_eq issued_started driver_verb_def verb_def
      upload_invocation_def split: sum.splits proc_result.splits)

lemma starts_only_upload_step: "starts_only driver_verb (upload_step E payload files)"
  unfolding upload_step_def
  by (intro starts_only_bind starts_only_lift starts_only_upload_package)

lemma starts_only_main: "starts_only driver_verb (main E payload)"
  unfolding main_def
  by (intro starts_only_bind starts_only_lift starts_only_check_vargs
      starts_only_select_server starts_only_login starts_only_select_index
      starts_only_upload_package)

lemma upload_step_issued:
  "\<exists>new. issued (snd (upload_step E payload files w)) = issued w @ new"
  using starts_only_upload_step [of E payload files] unfolding starts_only_def by blast

lemma sample_accepted:
  "check_vargs (script_env tbl rcs) (PDict sample_vargs) w = (Returned (), w)"
  by (simp add: check_vargs_dict dict_get_def sample_vargs_def script_env_def urlsplit_str_https)

lemma sample_vargs_bound: "map_of sample_payload ''vargs'' = Some (PDict sample_vargs)"
  by (simp add: sample_payload_def)

lemma sample_server: "map_of sample_vargs ''server'' = Some (PStr ''https://pkg.example.com'')"
  by (simp add: sample_vargs_def)

lemma sample_fields:
  "dict_get sample_vargs ''username'' PNone = PStr ''ci''"
  "dict_get sample_vargs ''password'' PNone = PStr ''''"
  "dict_get sample_vargs ''index'' PNone = PStr ''root/dev''"
  "dict_get sample_vargs ''files'' PNone = PList [PStr ''*.whl'', PStr ''a*'']"
  by (simp_all add: dict_get_def sample_vargs_def)

lemma spawn_script_env: "spawn (script_env tbl rcs) history c = answers rcs history c"
  by (simp add: script_env_def)

lemma not_driver_verb_create_index: "\<not> driver_verb (create_index_invocation clientdir index)"
  by (simp add: driver_verb_def verb_def create_index_invocation_def)

lemma main_never_creates_index:
  assumes "create_index_invocation clientdir index \<notin> set (issued w)"
  shows "create_index_invocation clientdir index \<notin> set (issued (snd (main E payload w)))"
proof -
  obtain new where new: "issued (snd (main E payload w)) = issued w @ new"
      "list_all driver_verb new"
    using starts_only_main [of E payload] unfolding starts_only_def by blast
  have "create_index_invocation clientdir index \<notin> set new"
    using new(2) not_driver_verb_create_index [of clientdir index]
    by (auto simp: list_all_iff)
  with assms new(1) show ?thesis by simp
qed

lemma sample_workspace: "map_of sample_payload ''workspace'' = Some (PDict [(''path'', PStr ''/ws'')])"
  by (simp add: sample_payload_def)

lemma sample_names:
  "upload_names (script_env wheels rcs) (PStr ''/ws'') (dict_get sample_vargs ''files'' PNone) =
     Inr [PStr ''/ws/a.whl'', PStr ''/ws/b.whl'', PStr ''/ws/a.whl'']"
  by (simp add: sample_fields upload_names_def expand_files_def script_env_def
      posix_join_str_def wheels_def)

section \<open>The upload step\<close>

text \<open>
  C1, as amended. \<open>upload_package\<close> carries the decorator \<open>die_on_error\<close> like the three
  checked steps: when the upload command has been built and the child exits with code 1,
  the call leaves the process with status 1; with any other code, zero or not, it returns
  normally. In both cases the upload command is the one command started.
\<close>

theorem upload_package_dies_on_code_1:
  assumes "upload_names E path files = Inr names"
    and "spawn E (issued w) (upload_invocation clientdir path names) = Completed rc"
  shows "upload_package E path clientdir files w =
     (if rc = 1 then Exited 1 else Returned None,
      started w [upload_invocation clientdir path names])"
  using assms by (simp add: upload_package_eq)

theorem upload_package_dies_on_code_1_witness:
  "upload_names (script_env wheels [2]) (PStr ''/ws'') PNone = Inr []
   \<and> spawn (script_env wheels [2]) (issued w0)
        (upload_invocation DEFAULT_CLIENTDIR (PStr ''/ws'') []) = Completed 2
   \<and> upload_package (script_env wheels [2]) (PStr ''/ws'') DEFAULT_CLIENTDIR PNone w0 =
       (Returned None, started w0 [upload_invocation DEFAULT_CLIENTDIR (PStr ''/ws'') []])"
proof -
  have a: "upload_names (script_env wheels [2]) (PStr ''/ws'') PNone = Inr []"
    by (simp add: upload_names_def)
  have b: "spawn (script_env wheels [2]) (issued w0)
        (upload_invocation DEFAULT_CLIENTDIR (PStr ''/ws'') []) = Completed 2"
    by (simp add: script_env_def answers_def w0_def)
  show ?thesis
    using a b upload_package_dies_on_code_1 [OF a b] by simp
qed

text \<open>
  C1 as stated fails: the upload child exits with the non-zero code 1, and the call does not
  return; it leaves the process with status 1.
\<close>

theorem upload_package_exit_code_1_counterexample:
  "spawn (script_env wheels [1]) (issued w0)
     (upload_invocation DEFAULT_CLIENTDIR (PStr ''/ws'') []) = Completed 1
   \<and> upload_package (script_env wheels [1]) (PStr ''/ws'') DEFAULT_CLIENTDIR PNone w0 =
       (Exited 1, started w0 [upload_invocation DEFAULT_CLIENTDIR (PStr ''/ws'') []])"
  by (simp add: upload_package_eq upload_names_def script_env_def answers_def w0_def)

text \<open>
  C8 says that \<open>upload_package\<close> returns the process handle. The decorated function never
  does, on any input: \<open>wrapped\<close> has no return statement, so a call that returns gives
  \<open>None\<close>. At the workspace \<open>/ws\<close> with no patterns and a child that exits with 0, the call
  returns \<open>None\<close>.
\<close>

theorem upload_package_returns_no_handle:
  "fst (upload_package E path clientdir files w) \<noteq> Returned (Some handle)
   \<and> upload_package (script_env wheels [0]) (PStr ''/ws'') DEFAULT_CLIENTDIR PNone w0 =
       (Returned None, started w0 [upload_invocation DEFAULT_CLIENTDIR (PStr ''/ws'') []])"
  by (simp add: upload_package_eq upload_names_def script_env_def answers_def w0_def
      split: sum.splits proc_result.splits)

text \<open>
  C7. For every workspace path, when \<open>files\<close> is empty or absent (any falsy value: \<open>None\<close>,
  the empty list, the empty string), the upload step starts exactly
  \<open>devpi upload --clientdir <clientdir> --from-dir --no-vcs\<close>, with no file arguments after
  it and with the workspace path as working directory.
\<close>

theorem upload_without_patterns:
  assumes "\<not> truthy files"
  shows "issued (snd (upload_package E path clientdir files w)) =
     issued w @ [\<lparr>argv = [PStr ''devpi'', PStr ''upload'', PStr ''--clientdir'', clientdir,
                          PStr ''--from-dir'', PStr ''--no-vcs''],
                  cwd = Some path\<rparr>]"
  using assms
  by (simp add: upload_package_eq upload_names_def upload_invocation_def issued_started
      split: proc_result.splits)

theorem upload_without_patterns_witness:
  "\<not> truthy (PList []) \<and> \<not> truthy PNone \<and> \<not> truthy (PStr '''')
   \<and> issued (snd (upload_package (script_env wheels []) (PStr ''/ws'') DEFAULT_CLIENTDIR
        (PList []) w0)) =
      [\<lparr>argv = [PStr ''devpi'', PStr ''upload'', PStr ''--clientdir'',
                 PStr ''/tmp/devpi-clientdir'', PStr ''--from-dir'', PStr ''--no-vcs''],
         cwd = Some (PStr ''/ws'')\<rparr>]"
  using upload_without_patterns [of "PList []" "script_env wheels []" "PStr ''/ws''"
      DEFAULT_CLIENTDIR w0]
  by (simp add: w0_def DEFAULT_CLIENTDIR_def)

text \<open>
  C6. For every workspace path and every non-empty list of patterns whose joins with the
  path and whose glob expansions are defined, the upload command is the base command
  followed by exactly the concatenation of the expansions, pattern by pattern and match by
  match, nothing removed (a file matched twice is passed twice); the working directory is the
  workspace path. A non-empty string as \<open>files\<close> behaves as the list holding that one string.
\<close>

theorem upload_file_arguments:
  assumes "ps \<noteq> []"
    and "map (path_join E path) ps = map Inr qs"
    and "map (glob E) qs = map Inr fss"
  shows "issued (snd (upload_package E path clientdir (PList ps) w)) =
           issued w @ [\<lparr>argv = [PStr ''devpi'', PStr ''upload'', PStr ''--clientdir'', clientdir,
                                PStr ''--from-dir'', PStr ''--no-vcs''] @ concat fss,
                        cwd = Some path\<rparr>]
         \<and> (\<forall>s. s \<noteq> [] \<longrightarrow>
               upload_package E path clientdir (PStr s) w =
               upload_package E path clientdir (PList [PStr s]) w)"
proof -
  have "upload_names E path (PList ps) = Inr (concat fss)"
    using assms by (simp add: upload_names_def expand_files_list)
  then have "issued (snd (upload_package E path clientdir (PList ps) w)) =
      issued w @ [upload_invocation clientdir path (concat fss)]"
    by (simp add: upload_package_eq issued_started split: proc_result.splits)
  moreover have "upload_package E path clientdir (PStr s) w =
      upload_package E path clientdir (PList [PStr s]) w" if "s \<noteq> []" for s
    using that by (simp add: upload_package_eq upload_names_def expand_files_str)
  ultimately show ?thesis
    by (simp add: upload_invocation_def)
qed

theorem upload_file_arguments_witness:
  "[PStr ''*.whl'', PStr ''a*''] \<noteq> []
   \<and> map (path_join (script_env wheels []) (PStr ''/ws'')) [PStr ''*.whl'', PStr ''a*''] =
       map Inr [PStr ''/ws/*.whl'', PStr ''/ws/a*'']
   \<and> map (glob (script_env wheels [])) [PStr ''/ws/*.whl'', PStr ''/ws/a*''] =
       map Inr [[PStr ''/ws/a.whl'', PStr ''/ws/b.whl''], [PStr ''/ws/a.whl'']]
   \<and> issued (snd (upload_package (script_env wheels []) (PStr ''/ws'') DEFAULT_CLIENTDIR
        (PList [PStr ''*.whl'', PStr ''a*'']) w0)) =
      [\<lparr>argv = [PStr ''devpi'', PStr ''upload'', PStr ''--clientdir'',
                 PStr ''/tmp/devpi-clientdir'', PStr ''--from-dir'', PStr ''--no-vcs'',
                 PStr ''/ws/a.whl'', PStr ''/ws/b.whl'', PStr ''/ws/a.whl''],
         cwd = Some (PStr ''/ws'')\<rparr>]
   \<and> upload_package (script_env wheels []) (PStr ''/ws'') DEFAULT_CLIENTDIR (PStr ''*.whl'') w0 =
      upload_package (script_env wheels []) (PStr ''/ws'') DEFAULT_CLIENTDIR
        (PList [PStr ''*.whl'']) w0"
proof -
  have a: "[PStr ''*.whl'', PStr ''a*''] \<noteq> []"
    by simp
  have b: "map (path_join (script_env wheels []) (PStr ''/ws'')) [PStr ''*.whl'', PStr ''a*''] =
       map Inr [PStr ''/ws/*.whl'', PStr ''/ws/a*'']"
    by (simp add: script_env_def posix_join_str_def)
  have c: "map (glob (script_env wheels [])) [PStr ''/ws/*.whl'', PStr ''/ws/a*''] =
       map Inr [[PStr ''/ws/a.whl'', PStr ''/ws/b.whl''], [PStr ''/ws/a.whl'']]"
    by (simp add: script_env_def wheels_def)
  show ?thesis
    using a b c upload_file_arguments [OF a b c, of DEFAULT_CLIENTDIR w0]
    by (simp add: w0_def DEFAULT_CLIENTDIR_def)
qed

text \<open>
  C10. For every non-empty list of patterns none of which matches a file, the upload step
  does exactly what it does with no patterns at all: the same command, with no file
  argument after \<open>--from-dir --no-vcs\<close>, is started.
\<close>

theorem upload_unmatched_patterns:
  assumes "ps \<noteq> []"
    and "map (path_join E path) ps = map Inr qs"
    and "\<forall>q \<in> set qs. glob E q = Inr []"
  shows "upload_package E path clientdir (PList ps) w = upload_package E path clientdir PNone w"
proof -
  have "map (glob E) qs = map Inr (replicate (length qs) [])"
    using assms(3) by (induction qs) simp_all
  then have "expand_files E path (PList ps) = Inr (concat (replicate (length qs) []))"
    using assms(2) by (rule expand_files_list [rotated])
  then have "upload_names E path (PList ps) = upload_names E path PNone"
    using assms(1) by (simp add: upload_names_def)
  then show ?thesis
    by (simp add: upload_package_eq)
qed

theorem upload_unmatched_patterns_witness:
  "[PStr ''*.tar.gz'', PStr ''*.zip''] \<noteq> []
   \<and> map (path_join (script_env wheels []) (PStr ''/ws'')) [PStr ''*.tar.gz'', PStr ''*.zip''] =
       map Inr [PStr ''/ws/*.tar.gz'', PStr ''/ws/*.zip'']
   \<and> glob (script_env wheels []) (PStr ''/ws/*.tar.gz'') = Inr []
   \<and> glob (script_env wheels []) (PStr ''/ws/*.zip'') = Inr []
   \<and> upload_package (script_env wheels []) (PStr ''/ws'') DEFAULT_CLIENTDIR
        (PList [PStr ''*.tar.gz'', PStr ''*.zip'']) w0 =
      upload_package (script_env wheels []) (PStr ''/ws'') DEFAULT_CLIENTDIR PNone w0
   \<and> issued (snd (upload_package (script_env wheels []) (PStr ''/ws'') DEFAULT_CLIENTDIR
        (PList [PStr ''*.tar.gz'', PStr ''*.zip'']) w0)) =
      [\<lparr>argv = [PStr ''devpi'', PStr ''upload'', PStr ''--clientdir'',
                 PStr ''/tmp/devpi-clientdir'', PStr ''--from-dir'', PStr ''--no-vcs''],
         cwd = Some (PStr ''/ws'')\<rparr>]"
proof -
  have a: "[PStr ''*.tar.gz'', PStr ''*.zip''] \<noteq> []"
    by simp
  have b: "map (path_join (script_env wheels []) (PStr ''/ws'')) [PStr ''*.tar.gz'', PStr ''*.zip''] =
       map Inr [PStr ''/ws/*.tar.gz'', PStr ''/ws/*.zip'']"
    by (simp add: script_env_def posix_join_str_def)
  have c: "\<forall>q \<in> set [PStr ''/ws/*.tar.gz'', PStr ''/ws/*.zip'']. glob (script_env wheels []) q = Inr []"
    by (simp add: script_env_def wheels_def)
  have d: "upload_package (script_env wheels []) (PStr ''/ws'') DEFAULT_CLIENTDIR PNone w0 =
      (Returned None, started w0 [upload_invocation DEFAULT_CLIENTDIR (PStr ''/ws'') []])"
    by (simp add: upload_package_eq upload_names_def script_env_def answers_def w0_def)
  show ?thesis
    using a b c upload_unmatched_patterns [OF a b c, of DEFAULT_CLIENTDIR w0]
    by (simp add: d issued_started upload_invocation_def) (simp add: w0_def DEFAULT_CLIENTDIR_def)
qed

section \<open>The validator\<close>

text \<open>
  C5, as amended. The validator first splits the server value. When \<open>urlsplit\<close> raises on
  it, that exception leaves the validator: no check is made, nothing is printed, there is no
  exit. When \<open>urlsplit\<close> returns, the validator checks server, index, username, password in
  this order, and the first check that fails prints its own message, and only that one, and
  exits with status 1, whatever the later fields hold. The index and the username pass only
  when they are truthy, so they must be present and not the empty string; the password is
  rejected only when it is absent or \<open>None\<close>, so the empty string passes.
\<close>

theorem check_vargs_order:
  "(urlsplit E (dict_get d ''server'' (PStr '''')) = Inl e \<longrightarrow>
      check_vargs E (PDict d) w = (Raised e, w))
   \<and> (urlsplit E (dict_get d ''server'' (PStr '''')) = Inr parsed \<longrightarrow>
        (\<not> (truthy (scheme parsed) \<and> truthy (netloc parsed)) \<longrightarrow>
            check_vargs E (PDict d) w = (Exited 1, w\<lparr>printed := printed w @ [msg_server]\<rparr>))
        \<and> (truthy (scheme parsed) \<and> truthy (netloc parsed)
            \<and> \<not> truthy (dict_get d ''index'' PNone) \<longrightarrow>
            check_vargs E (PDict d) w = (Exited 1, w\<lparr>printed := printed w @ [msg_index]\<rparr>))
        \<and> (truthy (scheme parsed) \<and> truthy (netloc parsed)
            \<and> truthy (dict_get d ''index'' PNone)
            \<and> \<not> truthy (dict_get d ''username'' PNone) \<longrightarrow>
            check_vargs E (PDict d) w = (Exited 1, w\<lparr>printed := printed w @ [msg_username]\<rparr>))
        \<and> (truthy (scheme parsed) \<and> truthy (netloc parsed)
            \<and> truthy (dict_get d ''index'' PNone)
            \<and> truthy (dict_get d ''username'' PNone)
            \<and> dict_get d ''password'' PNone = PNone \<longrightarrow>
            check_vargs E (PDict d) w = (Exited 1, w\<lparr>printed := printed w @ [msg_password]\<rparr>))
        \<and> (truthy (scheme parsed) \<and> truthy (netloc parsed)
            \<and> truthy (dict_get d ''index'' PNone)
            \<and> truthy (dict_get d ''username'' PNone)
            \<and> dict_get d ''password'' PNone \<noteq> PNone \<longrightarrow>
            check_vargs E (PDict d) w = (Returned (), w)))
   \<and> (\<forall>k. truthy (dict_get d k PNone) \<longrightarrow>
        map_of d k \<noteq> None \<and> map_of d k \<noteq> Some (PStr ''''))
   \<and> (\<forall>k s. map_of d k = Some (PStr s) \<and> s \<noteq> [] \<longrightarrow> truthy (dict_get d k PNone))
   \<and> (dict_get d ''password'' PNone = PNone \<longleftrightarrow>
        map_of d ''password'' = None \<or> map_of d ''password'' = Some PNone)"
proof (intro conjI impI)
  show "\<forall>k. truthy (dict_get d k PNone) \<longrightarrow>
      map_of d k \<noteq> None \<and> map_of d k \<noteq> Some (PStr '''')"
    by (auto simp: dict_get_def split: option.splits)
  show "\<forall>k s. map_of d k = Some (PStr s) \<and> s \<noteq> [] \<longrightarrow> truthy (dict_get d k PNone)"
    by (simp add: dict_get_def)
  show "dict_get d ''password'' PNone = PNone \<longleftrightarrow>
      map_of d ''password'' = None \<or> map_of d ''password'' = Some PNone"
    by (simp add: dict_get_def split: option.splits)
qed (simp_all add: check_vargs_dict)

theorem check_vargs_order_witness:
  "urlsplit (script_env wheels []) (dict_get sample_vargs ''server'' (PStr '''')) =
     Inr \<lparr>scheme = PStr ''https'', netloc = PStr ''pkg.example.com''\<rparr>
   \<and> map_of sample_vargs ''password'' = Some (PStr '''')
   \<and> check_vargs (script_env wheels []) (PDict sample_vargs) w0 = (Returned (), w0)
   \<and> urlsplit (script_env wheels []) (dict_get [(''server'', PStr ''pkg.example.com'')] ''server'' (PStr ''''))
       = Inr \<lparr>scheme = PStr '''', netloc = PStr ''''\<rparr>
   \<and> check_vargs (script_env wheels []) (PDict [(''server'', PStr ''pkg.example.com'')]) w0 =
       (Exited 1, w0\<lparr>printed := [msg_server]\<rparr>)
   \<and> check_vargs (script_env wheels [])
        (PDict [(''server'', PStr ''https://pkg.example.com''), (''username'', PStr '''')]) w0 =
       (Exited 1, w0\<lparr>printed := [msg_index]\<rparr>)
   \<and> check_vargs (script_env wheels [])
        (PDict [(''server'', PStr ''https://pkg.example.com''), (''index'', PStr ''root/dev'')]) w0 =
       (Exited 1, w0\<lparr>printed := [msg_username]\<rparr>)
   \<and> check_vargs (script_env wheels [])
        (PDict [(''server'', PStr ''https://pkg.example.com''), (''index'', PStr ''root/dev''),
                (''username'', PStr ''ci''), (''password'', PNone)]) w0 =
       (Exited 1, w0\<lparr>printed := [msg_password]\<rparr>)
   \<and> urlsplit (script_env wheels [])
        (dict_get [(''server'', PStr ''http://[''), (''index'', PStr ''root/dev'')] ''server''
           (PStr '''')) = Inl ValueError
   \<and> check_vargs (script_env wheels [])
        (PDict [(''server'', PStr ''http://[''), (''index'', PStr ''root/dev'')]) w0 =
       (Raised ValueError, w0)"
proof -
  let ?E = "script_env wheels []"
  let ?ok = "\<lparr>scheme = PStr ''https'', netloc = PStr ''pkg.example.com''\<rparr>"
  let ?no = "\<lparr>scheme = PStr '''', netloc = PStr ''''\<rparr>"
  let ?d1 = "[(''server'', PStr ''pkg.example.com'')]"
  let ?d2 = "[(''server'', PStr ''https://pkg.example.com''), (''username'', PStr '''')]"
  let ?d3 = "[(''server'', PStr ''https://pkg.example.com''), (''index'', PStr ''root/dev'')]"
  let ?d4 = "[(''server'', PStr ''https://pkg.example.com''), (''index'', PStr ''root/dev''),
              (''username'', PStr ''ci''), (''password'', PNone)]"
  let ?d5 = "[(''server'', PStr ''http://[''), (''index'', PStr ''root/dev'')]"
  have bare: "urlsplit_str ''pkg.example.com'' = Inr ?no"
    by (simp add: urlsplit_str_def Let_def scheme_chars_def ascii_letters_def ascii_lower_def)
  have a: "urlsplit ?E (dict_get sample_vargs ''server'' (PStr '''')) = Inr ?ok"
    by (simp add: script_env_def dict_get_def sample_vargs_def urlsplit_str_https)
  have b: "urlsplit ?E (dict_get ?d1 ''server'' (PStr '''')) = Inr ?no"
    by (simp add: script_env_def dict_get_def bare)
  have c: "urlsplit ?E (dict_get ?d2 ''server'' (PStr '''')) = Inr ?ok"
    by (simp add: script_env_def dict_get_def urlsplit_str_https)
  have d: "urlsplit ?E (dict_get ?d3 ''server'' (PStr '''')) = Inr ?ok"
    by (simp add: script_env_def dict_get_def urlsplit_str_https)
  have e: "urlsplit ?E (dict_get ?d4 ''server'' (PStr '''')) = Inr ?ok"
    by (simp add: script_env_def dict_get_def urlsplit_str_https)
  have f: "urlsplit ?E (dict_get ?d5 ''server'' (PStr '''')) = Inl ValueError"
    by (simp add: script_env_def dict_get_def urlsplit_str_bracket)
  have pw: "map_of sample_vargs ''password'' = Some (PStr '''')"
    by (simp add: sample_vargs_def)
  have r0: "check_vargs ?E (PDict sample_vargs) w0 = (Returned (), w0)"
    using check_vargs_order [where E = ?E and d = sample_vargs and w = w0 and parsed = ?ok,
        THEN conjunct2, THEN conjunct1, THEN mp, OF a]
    by (simp add: dict_get_def sample_vargs_def)
  have r1: "check_vargs ?E (PDict ?d1) w0 = (Exited 1, w0\<lparr>printed := [msg_server]\<rparr>)"
    using check_vargs_order [where E = ?E and d = ?d1 and w = w0 and parsed = ?no,
        THEN conjunct2, THEN conjunct1, THEN mp, OF b]
    by (simp add: w0_def)
  have r2: "check_vargs ?E (PDict ?d2) w0 = (Exited 1, w0\<lparr>printed := [msg_index]\<rparr>)"
    using check_vargs_order [where E = ?E and d = ?d2 and w = w0 and parsed = ?ok,
        THEN conjunct2, THEN conjunct1, THEN mp, OF c]
    by (simp add: dict_get_def w0_def)
  have r3: "check_vargs ?E (PDict ?d3) w0 = (Exited 1, w0\<lparr>printed := [msg_username]\<rparr>)"
    using check_vargs_order [where E = ?E and d = ?d3 and w = w0 and parsed = ?ok,
        THEN conjunct2, THEN conjunct1, THEN mp, OF d]
    by (simp add: dict_get_def w0_def)
  have r4: "check_vargs ?E (PDict ?d4) w0 = (Exited 1, w0\<lparr>printed := [msg_password]\<rparr>)"
    using check_vargs_order [where E = ?E and d = ?d4 and w = w0 and parsed = ?ok,
        THEN conjunct2, THEN conjunct1, THEN mp, OF e]
    by (simp add: dict_get_def w0_def)
  have r5: "check_vargs ?E (PDict ?d5) w0 = (Raised ValueError, w0)"
    using check_vargs_order [where E = ?E and d = ?d5 and w = w0 and e = ValueError,
        THEN conjunct1, THEN mp, OF f] .
  from a pw r0 b r1 r2 r3 r4 f r5 show ?thesis
    by blast
qed

text \<open>
  C5 as stated fails: on a dict whose server is \<open>http://[\<close> and which has no index, the
  index check would fail, yet the validator prints no message and does not exit with status
  1; the ValueError of \<open>urlsplit\<close> leaves it before any check.
\<close>

theorem check_vargs_no_diagnostic_counterexample:
  "map_of [(''server'', PStr ''http://['')] ''index'' = (None :: pyval option)
   \<and> check_vargs (script_env wheels []) (PDict [(''server'', PStr ''http://['')]) w0 =
       (Raised ValueError, w0)
   \<and> printed (snd (check_vargs (script_env wheels []) (PDict [(''server'', PStr ''http://['')])
         w0)) = []"
  by (simp add: check_vargs_dict dict_get_def script_env_def urlsplit_str_bracket w0_def)

text \<open>
  C9, as amended. On every dict the validator raises nothing of its own, so never a KeyError
  of a missing key: it raises exactly when \<open>urlsplit\<close> raises on the server value, and then
  that exception leaves the validator, with nothing printed. Whenever \<open>urlsplit\<close> returns,
  the validator either returns, printing nothing, or prints exactly one of its four messages
  and exits with status 1. A dict without the key \<open>server\<close> is treated as one that binds it
  to the empty string, and fails the URI check when the split of the empty string has an
  empty scheme or network location.
\<close>

theorem check_vargs_missing_keys:
  "(urlsplit E (dict_get d ''server'' (PStr '''')) = Inl e \<longrightarrow>
      check_vargs E (PDict d) w = (Raised e, w))
   \<and> (fst (check_vargs E (PDict d) w) = Raised e \<longrightarrow>
        urlsplit E (dict_get d ''server'' (PStr '''')) = Inl e)
   \<and> (urlsplit E (dict_get d ''server'' (PStr '''')) = Inr parsed \<longrightarrow>
        check_vargs E (PDict d) w = (Returned (), w)
        \<or> (\<exists>msg \<in> {msg_server, msg_index, msg_username, msg_password}.
              check_vargs E (PDict d) w = (Exited 1, w\<lparr>printed := printed w @ [msg]\<rparr>)))
   \<and> (map_of d ''server'' = None \<longrightarrow>
        check_vargs E (PDict d) w = check_vargs E (PDict ((''server'', PStr '''') # d)) w)
   \<and> (map_of d ''server'' = None \<and> urlsplit E (PStr '''') = Inr parsed
        \<and> \<not> (truthy (scheme parsed) \<and> truthy (netloc parsed)) \<longrightarrow>
        check_vargs E (PDict d) w = (Exited 1, w\<lparr>printed := printed w @ [msg_server]\<rparr>))"
proof (intro conjI impI)
  assume "urlsplit E (dict_get d ''server'' (PStr '''')) = Inl e"
  then show "check_vargs E (PDict d) w = (Raised e, w)"
    by (simp add: check_vargs_dict)
next
  assume "fst (check_vargs E (PDict d) w) = Raised e"
  then show "urlsplit E (dict_get d ''server'' (PStr '''')) = Inl e"
    using check_vargs_cases [of E d w] by auto
next
  assume "urlsplit E (dict_get d ''server'' (PStr '''')) = Inr parsed"
  then show "check_vargs E (PDict d) w = (Returned (), w)
      \<or> (\<exists>msg \<in> {msg_server, msg_index, msg_username, msg_password}.
            check_vargs E (PDict d) w = (Exited 1, w\<lparr>printed := printed w @ [msg]\<rparr>))"
    using check_vargs_cases [of E d w] by auto
next
  assume "map_of d ''server'' = None"
  then show "check_vargs E (PDict d) w = check_vargs E (PDict ((''server'', PStr '''') # d)) w"
    by (simp add: check_vargs_dict dict_get_def)
next
  assume "map_of d ''server'' = None \<and> urlsplit E (PStr '''') = Inr parsed
      \<and> \<not> (truthy (scheme parsed) \<and> truthy (netloc parsed))"
  then show "check_vargs E (PDict d) w = (Exited 1, w\<lparr>printed := printed w @ [msg_server]\<rparr>)"
    by (simp add: check_vargs_dict dict_get_def)
qed

theorem check_vargs_missing_keys_witness:
  "map_of [] ''server'' = (None :: pyval option)
   \<and> urlsplit (script_env wheels []) (PStr '''') = Inr \<lparr>scheme = PStr '''', netloc = PStr ''''\<rparr>
   \<and> check_vargs (script_env wheels []) (PDict []) w0 =
       (Exited 1, w0\<lparr>printed := printed w0 @ [msg_server]\<rparr>)
   \<and> check_vargs (script_env wheels []) (PDict []) w0 =
       check_vargs (script_env wheels []) (PDict [(''server'', PStr '''')]) w0
   \<and> urlsplit (script_env wheels []) (dict_get [(''server'', PStr ''http://['')] ''server'' (PStr ''''))
       = Inl ValueError
   \<and> check_vargs (script_env wheels []) (PDict [(''server'', PStr ''http://['')]) w0 =
       (Raised ValueError, w0)
   \<and> fst (check_vargs (script_env wheels []) (PDict [(''server'', PStr ''http://['')]) w0) =
       Raised ValueError"
proof -
  let ?E = "script_env wheels []"
  let ?r = "\<lparr>scheme = PStr '''', netloc = PStr ''''\<rparr>"
  let ?bad = "[(''server'', PStr ''http://['')]"
  note T = check_vargs_missing_keys [of ?E "[]" ValueError w0 ?r]
  note U = check_vargs_missing_keys [of ?E ?bad ValueError w0 ?r]
  have a: "map_of ([] :: (string \<times> pyval) list) ''server'' = None"
    by simp
  have b: "urlsplit ?E (PStr '''') = Inr ?r"
    by (simp add: script_env_def urlsplit_str_empty)
  have c: "urlsplit ?E (dict_get ?bad ''server'' (PStr '''')) = Inl ValueError"
    by (simp add: dict_get_def script_env_def urlsplit_str_bracket)
  have d: "check_vargs ?E (PDict []) w0 = (Exited 1, w0\<lparr>printed := printed w0 @ [msg_server]\<rparr>)"
    using T [THEN conjunct2, THEN conjunct2, THEN conjunct2, THEN conjunct2] a b by simp
  have e: "check_vargs ?E (PDict []) w0 = check_vargs ?E (PDict [(''server'', PStr '''')]) w0"
    using T [THEN conjunct2, THEN conjunct2, THEN conjunct2, THEN conjunct1] a by blast
  have f: "check_vargs ?E (PDict ?bad) w0 = (Raised ValueError, w0)"
    using U [THEN conjunct1] c by blast
  then have g: "fst (check_vargs ?E (PDict ?bad) w0) = Raised ValueError"
    by simp
  have "urlsplit ?E (dict_get ?bad ''server'' (PStr '''')) = Inl ValueError"
    using U [THEN conjunct2, THEN conjunct1] g by blast
  from a b d e c f g show ?thesis
    by blast
qed

text \<open>
  C9 as stated fails: on a dict with all four keys whose server is \<open>http://[\<close> the
  validator neither returns nor exits with status 1; the ValueError of \<open>urlsplit\<close> leaves it.
\<close>

theorem check_vargs_raises_counterexample:
  "check_vargs (script_env wheels [])
     (PDict [(''server'', PStr ''http://[''), (''index'', PStr ''root/dev''),
             (''username'', PStr ''ci''), (''password'', PStr ''pw'')]) w0 =
   (Raised ValueError, w0)"
  by (simp add: check_vargs_dict dict_get_def script_env_def urlsplit_str_bracket)

section \<open>The driver\<close>

text \<open>
  C3. For every payload whose \<open>vargs\<close> dict misses \<open>server\<close>, \<open>index\<close>, \<open>username\<close> or
  \<open>password\<close>, or whose server splits into an empty scheme or an empty network location,
  the run starts no external command and the process ends with status 1. When the URL
  splitter returns (and the server key is there or the split of the empty string fails the
  check), the end is the validator's own: one message printed, then \<open>sys.exit(1)\<close>.
  Otherwise the run ends on the uncaught exception of the splitter or of \<open>vargs['server']\<close>,
  still before any command.
\<close>

theorem invalid_vargs_start_nothing:
  assumes vargs: "map_of p ''vargs'' = Some (PDict d)"
    and bad: "map_of d ''server'' = None \<or> map_of d ''index'' = None
       \<or> map_of d ''username'' = None \<or> map_of d ''password'' = None
       \<or> (\<exists>parsed. urlsplit E (dict_get d ''server'' (PStr '''')) = Inr parsed
             \<and> \<not> (truthy (scheme parsed) \<and> truthy (netloc parsed)))"
  shows "issued (snd (main E (PDict p) w)) = issued w
     \<and> exit_status (fst (main E (PDict p) w)) = Some 1
     \<and> (\<forall>parsed. urlsplit E (dict_get d ''server'' (PStr '''')) = Inr parsed
           \<and> (map_of d ''server'' \<noteq> None \<or> \<not> (truthy (scheme parsed) \<and> truthy (netloc parsed)))
          \<longrightarrow> (\<exists>msg \<in> {msg_server, msg_index, msg_username, msg_password}.
                 main E (PDict p) w = (Exited 1, w\<lparr>printed := printed w @ [msg]\<rparr>)))"
proof -
  obtain K where main: "main E (PDict p) =
      bind (check_vargs E (PDict d)) (\<lambda>_. bind (lift (subscript (PDict d) ''server'')) K)"
    using main_until_server [OF vargs] by blast
  consider (raised) e where "urlsplit E (dict_get d ''server'' (PStr '''')) = Inl e"
      "check_vargs E (PDict d) w = (Raised e, w)"
    | (exited) msg where "msg \<in> {msg_server, msg_index, msg_username, msg_password}"
      "check_vargs E (PDict d) w = (Exited 1, w\<lparr>printed := printed w @ [msg]\<rparr>)"
    | (passed) "check_vargs E (PDict d) w = (Returned (), w)"
    using check_vargs_cases [of E d w] by blast
  then show ?thesis
  proof cases
    case raised
    then show ?thesis by (simp add: main bind_def)
  next
    case exited
    then have "main E (PDict p) w = (Exited 1, w\<lparr>printed := printed w @ [msg]\<rparr>)"
      by (simp add: main bind_def)
    with exited(1) show ?thesis by auto
  next
    case passed
    then obtain parsed where parsed: "urlsplit E (dict_get d ''server'' (PStr '''')) = Inr parsed"
      "truthy (scheme parsed)" "truthy (netloc parsed)"
      by (auto simp: check_vargs_dict split: sum.splits if_splits)
    have "dict_get d ''index'' PNone \<noteq> PNone" "dict_get d ''username'' PNone \<noteq> PNone"
      "dict_get d ''password'' PNone \<noteq> PNone"
      using check_vargs_accepts [OF passed] by (auto dest: truthy_not_None)
    then have "map_of d ''index'' \<noteq> None" "map_of d ''username'' \<noteq> None"
      "map_of d ''password'' \<noteq> None"
      by (auto simp: dict_get_def split: option.splits)
    with bad parsed have none: "map_of d ''server'' = None"
      by auto
    then have "main E (PDict p) w = (Raised (KeyError ''server''), w)"
      by (simp add: main bind_def passed lift_def)
    with none parsed show ?thesis by simp
  qed
qed

theorem invalid_vargs_start_nothing_witness:
  "map_of [(''vargs'', PDict [(''server'', PStr ''https://pkg.example.com''),
                              (''username'', PStr ''ci''), (''password'', PStr ''pw'')]),
           (''workspace'', PDict [(''path'', PStr ''/ws'')])] ''vargs'' =
     Some (PDict [(''server'', PStr ''https://pkg.example.com''),
                  (''username'', PStr ''ci''), (''password'', PStr ''pw'')])
   \<and> map_of [(''server'', PStr ''https://pkg.example.com''),
              (''username'', PStr ''ci''), (''password'', PStr ''pw'')] ''index'' = None
   \<and> issued (snd (main (script_env wheels [])
        (PDict [(''vargs'', PDict [(''server'', PStr ''https://pkg.example.com''),
                                   (''username'', PStr ''ci''), (''password'', PStr ''pw'')]),
                (''workspace'', PDict [(''path'', PStr ''/ws'')])]) w0)) = []
   \<and> exit_status (fst (main (script_env wheels [])
        (PDict [(''vargs'', PDict [(''server'', PStr ''https://pkg.example.com''),
                                   (''username'', PStr ''ci''), (''password'', PStr ''pw'')]),
                (''workspace'', PDict [(''path'', PStr ''/ws'')])]) w0)) = Some 1"
proof -
  let ?d = "[(''server'', PStr ''https://pkg.example.com''),
             (''username'', PStr ''ci''), (''password'', PStr ''pw'')]"
  let ?p = "[(''vargs'', PDict ?d), (''workspace'', PDict [(''path'', PStr ''/ws'')])]"
  have a: "map_of ?p ''vargs'' = Some (PDict ?d)"
    by simp
  have b: "map_of ?d ''index'' = None"
    by simp
  then have c: "map_of ?d ''server'' = None \<or> map_of ?d ''index'' = None
       \<or> map_of ?d ''username'' = None \<or> map_of ?d ''password'' = None
       \<or> (\<exists>parsed. urlsplit (script_env wheels []) (dict_get ?d ''server'' (PStr '''')) = Inr parsed
             \<and> \<not> (truthy (scheme parsed) \<and> truthy (netloc parsed)))"
    by blast
  show ?thesis
    using a b invalid_vargs_start_nothing [OF a c, of w0]
    by (simp add: w0_def)
qed

text \<open>
  C2. Each of the three checked steps, \<open>select_server\<close>, \<open>login\<close> and \<open>select_index\<close>, exits
  the process with status 1 exactly when its child returns code 1, and returns normally on
  every other code. In \<open>main\<close>, on a payload the validator accepts: a step whose child
  returns 1 ends the run at once, with only the commands up to that step started; a step
  whose child returns any other code, zero or not, is followed by the next step, whose
  command is started next.
\<close>

theorem checked_steps_exit_codes:
  assumes vargs: "map_of p ''vargs'' = Some (PDict d)"
    and ok: "check_vargs E (PDict d) w = (Returned (), w)"
    and server: "map_of d ''server'' = Some server"
    and c1: "c1 = use_invocation DEFAULT_CLIENTDIR server"
    and c2: "c2 = login_invocation DEFAULT_CLIENTDIR (dict_get d ''username'' PNone)
                    (dict_get d ''password'' PNone)"
    and c3: "c3 = use_invocation DEFAULT_CLIENTDIR (dict_get d ''index'' PNone)"
  shows "(\<forall>rc. spawn E (issued w) (use_invocation clientdir target) = Completed rc \<longrightarrow>
            select_server E target clientdir w =
              (if rc = 1 then Exited 1 else Returned None,
               started w [use_invocation clientdir target])
            \<and> select_index E target clientdir w =
              (if rc = 1 then Exited 1 else Returned None,
               started w [use_invocation clientdir target]))
     \<and> (\<forall>rc. spawn E (issued w) (login_invocation clientdir username password) = Completed rc \<longrightarrow>
            login E username password clientdir w =
              (if rc = 1 then Exited 1 else Returned None,
               started w [login_invocation clientdir username password]))
     \<and> (spawn E (issued w) c1 = Completed 1 \<longrightarrow>
            main E (PDict p) w = (Exited 1, started w [c1]))
     \<and> (\<forall>r1. spawn E (issued w) c1 = Completed r1 \<and> r1 \<noteq> 1 \<longrightarrow>
            (\<exists>more. issued (snd (main E (PDict p) w)) = issued w @ [c1, c2] @ more)
            \<and> (spawn E (issued w @ [c1]) c2 = Completed 1 \<longrightarrow>
                  main E (PDict p) w = (Exited 1, started w [c1, c2]))
            \<and> (\<forall>r2. spawn E (issued w @ [c1]) c2 = Completed r2 \<and> r2 \<noteq> 1 \<longrightarrow>
                  (\<exists>more. issued (snd (main E (PDict p) w)) = issued w @ [c1, c2, c3] @ more)
                  \<and> (spawn E (issued w @ [c1, c2]) c3 = Completed 1 \<longrightarrow>
                        main E (PDict p) w = (Exited 1, started w [c1, c2, c3]))
                  \<and> (\<forall>r3. spawn E (issued w @ [c1, c2]) c3 = Completed r3 \<and> r3 \<noteq> 1 \<longrightarrow>
                        main E (PDict p) w =
                          upload_step E (PDict p) (dict_get d ''files'' PNone)
                            (started w [c1, c2, c3]))))"
proof -
  note run = main_run [OF vargs ok server c1 c2 c3]
  obtain more where more: "issued (snd (upload_step E (PDict p) (dict_get d ''files'' PNone)
      (started w [c1, c2, c3]))) = issued w @ [c1, c2, c3] @ more"
    using upload_step_issued [of E "PDict p" "dict_get d ''files'' PNone" "started w [c1, c2, c3]"]
    by (auto simp: issued_started)
  have steps: "\<forall>rc. spawn E (issued w) (use_invocation clientdir target) = Completed rc \<longrightarrow>
            select_server E target clientdir w =
              (if rc = 1 then Exited 1 else Returned None,
               started w [use_invocation clientdir target])
            \<and> select_index E target clientdir w =
              (if rc = 1 then Exited 1 else Returned None,
               started w [use_invocation clientdir target])"
    by (simp add: select_server_eq select_index_eq)
  have login: "\<forall>rc. spawn E (issued w) (login_invocation clientdir username password) = Completed rc \<longrightarrow>
            login E username password clientdir w =
              (if rc = 1 then Exited 1 else Returned None,
               started w [login_invocation clientdir username password])"
    by (simp add: login_eq)
  have m1: "spawn E (issued w) c1 = Completed 1 \<longrightarrow>
      main E (PDict p) w = (Exited 1, started w [c1])"
    by (simp add: run)
  have m3: "main E (PDict p) w =
      upload_step E (PDict p) (dict_get d ''files'' PNone) (started w [c1, c2, c3])"
    if "spawn E (issued w) c1 = Completed r1" "r1 \<noteq> 1"
      "spawn E (issued w @ [c1]) c2 = Completed r2" "r2 \<noteq> 1"
      "spawn E (issued w @ [c1, c2]) c3 = Completed r3" "r3 \<noteq> 1" for r1 r2 r3
    using that by (simp add: run)
  have m3x: "main E (PDict p) w = (Exited 1, started w [c1, c2, c3])"
    if "spawn E (issued w) c1 = Completed r1" "r1 \<noteq> 1"
      "spawn E (issued w @ [c1]) c2 = Completed r2" "r2 \<noteq> 1"
      "spawn E (issued w @ [c1, c2]) c3 = Completed 1" for r1 r2
    using that by (simp add: run)
  have m2x: "main E (PDict p) w = (Exited 1, started w [c1, c2])"
    if "spawn E (issued w) c1 = Completed r1" "r1 \<noteq> 1"
      "spawn E (issued w @ [c1]) c2 = Completed 1" for r1
    using that by (simp add: run)
  have i3: "\<exists>more. issued (snd (main E (PDict p) w)) = issued w @ [c1, c2, c3] @ more"
    if "spawn E (issued w) c1 = Completed r1" "r1 \<noteq> 1"
      "spawn E (issued w @ [c1]) c2 = Completed r2" "r2 \<noteq> 1" for r1 r2
    using that more by (cases "spawn E (issued w @ [c1, c2]) c3") (auto simp: run issued_started)
  have i2: "\<exists>more. issued (snd (main E (PDict p) w)) = issued w @ [c1, c2] @ more"
    if r1: "spawn E (issued w) c1 = Completed r1" "r1 \<noteq> 1" for r1
  proof (cases "spawn E (issued w @ [c1]) c2")
    case (Completed r2)
    show ?thesis
    proof (cases "r2 = 1")
      case True
      then show ?thesis using r1 Completed by (simp add: run issued_started)
    next
      case False
      then obtain more' where "issued (snd (main E (PDict p) w)) = issued w @ [c1, c2, c3] @ more'"
        using i3 [OF r1 Completed] by blast
      then have "issued (snd (main E (PDict p) w)) = issued w @ [c1, c2] @ (c3 # more')"
        by simp
      then show ?thesis by blast
    qed
  qed (use r1 in \<open>simp_all add: run issued_started\<close>)
  show ?thesis
    using steps login m1 i2 m2x i3 m3x m3 by blast
qed

theorem checked_steps_exit_codes_witness:
  "main (script_env wheels [1]) (PDict sample_payload) w0 =
     (Exited 1, started w0 [use_invocation DEFAULT_CLIENTDIR (PStr ''https://pkg.example.com'')])
   \<and> main (script_env wheels [2, 1]) (PDict sample_payload) w0 =
     (Exited 1, started w0 [use_invocation DEFAULT_CLIENTDIR (PStr ''https://pkg.example.com''),
                            login_invocation DEFAULT_CLIENTDIR (PStr ''ci'') (PStr '''')])
   \<and> main (script_env wheels [2, 2, 1]) (PDict sample_payload) w0 =
     (Exited 1, started w0 [use_invocation DEFAULT_CLIENTDIR (PStr ''https://pkg.example.com''),
                            login_invocation DEFAULT_CLIENTDIR (PStr ''ci'') (PStr ''''),
                            use_invocation DEFAULT_CLIENTDIR (PStr ''root/dev'')])
   \<and> main (script_env wheels [2, 2, 2]) (PDict sample_payload) w0 =
     upload_step (script_env wheels [2, 2, 2]) (PDict sample_payload)
       (PList [PStr ''*.whl'', PStr ''a*''])
       (started w0 [use_invocation DEFAULT_CLIENTDIR (PStr ''https://pkg.example.com''),
                    login_invocation DEFAULT_CLIENTDIR (PStr ''ci'') (PStr ''''),
                    use_invocation DEFAULT_CLIENTDIR (PStr ''root/dev'')])
   \<and> select_server (script_env wheels [2]) (PStr ''https://pkg.example.com'') DEFAULT_CLIENTDIR w0 =
     (Returned None, started w0 [use_invocation DEFAULT_CLIENTDIR (PStr ''https://pkg.example.com'')])
   \<and> login (script_env wheels [1]) (PStr ''ci'') (PStr '''') DEFAULT_CLIENTDIR w0 =
     (Exited 1, started w0 [login_invocation DEFAULT_CLIENTDIR (PStr ''ci'') (PStr '''')])"
proof -
  note S = sample_vargs_bound sample_accepted sample_server refl refl refl
  have a: "main (script_env wheels [1]) (PDict sample_payload) w0 =
     (Exited 1, started w0 [use_invocation DEFAULT_CLIENTDIR (PStr ''https://pkg.example.com'')])"
    using checked_steps_exit_codes [where E = "script_env wheels [1]" and w = w0, OF S,
        THEN conjunct2, THEN conjunct2, THEN conjunct1]
    by (simp add: spawn_script_env answers_def w0_def)
  have b: "main (script_env wheels [2, 1]) (PDict sample_payload) w0 =
     (Exited 1, started w0 [use_invocation DEFAULT_CLIENTDIR (PStr ''https://pkg.example.com''),
                            login_invocation DEFAULT_CLIENTDIR (PStr ''ci'') (PStr '''')])"
    using checked_steps_exit_codes [where E = "script_env wheels [2, 1]" and w = w0, OF S,
        THEN conjunct2, THEN conjunct2, THEN conjunct2]
    by (simp add: spawn_script_env answers_def w0_def sample_fields)
  have c: "main (script_env wheels [2, 2, 1]) (PDict sample_payload) w0 =
     (Exited 1, started w0 [use_invocation DEFAULT_CLIENTDIR (PStr ''https://pkg.example.com''),
                            login_invocation DEFAULT_CLIENTDIR (PStr ''ci'') (PStr ''''),
                            use_invocation DEFAULT_CLIENTDIR (PStr ''root/dev'')])"
    using checked_steps_exit_codes [where E = "script_env wheels [2, 2, 1]" and w = w0, OF S,
        THEN conjunct2, THEN conjunct2, THEN conjunct2]
    by (simp add: spawn_script_env answers_def w0_def sample_fields)
  have d: "main (script_env wheels [2, 2, 2]) (PDict sample_payload) w0 =
     upload_step (script_env wheels [2, 2, 2]) (PDict sample_payload)
       (PList [PStr ''*.whl'', PStr ''a*''])
       (started w0 [use_invocation DEFAULT_CLIENTDIR (PStr ''https://pkg.example.com''),
                    login_invocation DEFAULT_CLIENTDIR (PStr ''ci'') (PStr ''''),
                    use_invocation DEFAULT_CLIENTDIR (PStr ''root/dev'')])"
    using checked_steps_exit_codes [where E = "script_env wheels [2, 2, 2]" and w = w0, OF S,
        THEN conjunct2, THEN conjunct2, THEN conjunct2]
    by (simp add: spawn_script_env answers_def w0_def sample_fields)
  have e: "select_server (script_env wheels [2]) (PStr ''https://pkg.example.com'')
      DEFAULT_CLIENTDIR w0 =
     (Returned None, started w0 [use_invocation DEFAULT_CLIENTDIR (PStr ''https://pkg.example.com'')])"
    using checked_steps_exit_codes [where E = "script_env wheels [2]" and w = w0
        and clientdir = DEFAULT_CLIENTDIR
        and target = "PStr ''https://pkg.example.com''", OF S, THEN conjunct1]
    by (simp add: spawn_script_env answers_def w0_def)
  have f: "login (script_env wheels [1]) (PStr ''ci'') (PStr '''') DEFAULT_CLIENTDIR w0 =
     (Exited 1, started w0 [login_invocation DEFAULT_CLIENTDIR (PStr ''ci'') (PStr '''')])"
    using checked_steps_exit_codes [where E = "script_env wheels [1]" and w = w0
        and clientdir = DEFAULT_CLIENTDIR and username = "PStr ''ci''"
        and password = "PStr ''''", OF S, THEN conjunct2, THEN conjunct1]
    by (simp add: spawn_script_env answers_def w0_def)
  from a b c d e f show ?thesis
    by blast
qed

text \<open>
  C4, as amended. For every payload that the validator accepts and that holds the workspace
  path, if each of the first three commands completes with a return code other than 1 (and
  the file patterns expand), exactly four commands are started, in this order:
  \<open>use\<close> of the server, \<open>login\<close> with username and password, \<open>use\<close> of the index, \<open>upload\<close>.
  On no payload and in no run does \<open>main\<close> start the command of \<open>create_index\<close>.
\<close>

theorem valid_run_issues_four_commands:
  assumes vargs: "map_of p ''vargs'' = Some (PDict d)"
    and ok: "check_vargs E (PDict d) w = (Returned (), w)"
    and server: "map_of d ''server'' = Some server"
    and workspace: "map_of p ''workspace'' = Some (PDict ws)"
    and path: "map_of ws ''path'' = Some path"
    and names: "upload_names E path (dict_get d ''files'' PNone) = Inr names"
    and c1: "c1 = use_invocation DEFAULT_CLIENTDIR server"
    and c2: "c2 = login_invocation DEFAULT_CLIENTDIR (dict_get d ''username'' PNone)
                    (dict_get d ''password'' PNone)"
    and c3: "c3 = use_invocation DEFAULT_CLIENTDIR (dict_get d ''index'' PNone)"
    and c4: "c4 = upload_invocation DEFAULT_CLIENTDIR path names"
    and r1: "spawn E (issued w) c1 = Completed r1" "r1 \<noteq> 1"
    and r2: "spawn E (issued w @ [c1]) c2 = Completed r2" "r2 \<noteq> 1"
    and r3: "spawn E (issued w @ [c1, c2]) c3 = Completed r3" "r3 \<noteq> 1"
  shows "issued (snd (main E (PDict p) w)) = issued w @ [c1, c2, c3, c4]
     \<and> (\<forall>E' payload w' clientdir index.
           create_index_invocation clientdir index \<notin> set (issued w') \<longrightarrow>
           create_index_invocation clientdir index \<notin> set (issued (snd (main E' payload w'))))"
proof -
  have "main E (PDict p) w =
      upload_package E path DEFAULT_CLIENTDIR (dict_get d ''files'' PNone) (started w [c1, c2, c3])"
    using r1 r2 r3
    by (simp add: main_run [OF vargs ok server c1 c2 c3] upload_step_eq [OF workspace path])
  then have "issued (snd (main E (PDict p) w)) = issued w @ [c1, c2, c3, c4]"
    using names c4
    by (simp add: upload_package_eq issued_started started_started split: proc_result.splits)
  then show ?thesis
    using main_never_creates_index by blast
qed

theorem valid_run_issues_four_commands_witness:
  "check_vargs (script_env wheels []) (PDict sample_vargs) w0 = (Returned (), w0)
   \<and> issued (snd (main (script_env wheels []) (PDict sample_payload) w0)) =
     [\<lparr>argv = [PStr ''devpi'', PStr ''use'', PStr ''--clientdir'', PStr ''/tmp/devpi-clientdir'',
                PStr ''https://pkg.example.com''], cwd = None\<rparr>,
      \<lparr>argv = [PStr ''devpi'', PStr ''login'', PStr ''--clientdir'', PStr ''/tmp/devpi-clientdir'',
                PStr ''ci'', PStr ''--password'', PStr ''''], cwd = None\<rparr>,
      \<lparr>argv = [PStr ''devpi'', PStr ''use'', PStr ''--clientdir'', PStr ''/tmp/devpi-clientdir'',
                PStr ''root/dev''], cwd = None\<rparr>,
      \<lparr>argv = [PStr ''devpi'', PStr ''upload'', PStr ''--clientdir'', PStr ''/tmp/devpi-clientdir'',
                PStr ''--from-dir'', PStr ''--no-vcs'',
                PStr ''/ws/a.whl'', PStr ''/ws/b.whl'', PStr ''/ws/a.whl''],
        cwd = Some (PStr ''/ws'')\<rparr>]
   \<and> create_index_invocation DEFAULT_CLIENTDIR (PStr ''root/dev'')
       \<notin> set (issued (snd (main (script_env wheels []) (PDict sample_payload) w0)))"
proof -
  let ?E = "script_env wheels []"
  have r: "spawn ?E h c = Completed 0" "(0::int) \<noteq> 1" for h c
    by (simp_all add: spawn_script_env answers_def)
  have e: "create_index_invocation DEFAULT_CLIENTDIR (PStr ''root/dev'') \<notin> set (issued w0)"
    by (simp add: w0_def)
  note T = valid_run_issues_four_commands [where E = ?E and w = w0,
      OF sample_vargs_bound sample_accepted sample_server sample_workspace _ sample_names
         refl refl refl refl r r r]
  have p: "map_of [(''path'', PStr ''/ws'')] ''path'' = Some (PStr ''/ws'')"
    by simp
  have a: "issued (snd (main ?E (PDict sample_payload) w0)) =
     [\<lparr>argv = [PStr ''devpi'', PStr ''use'', PStr ''--clientdir'', PStr ''/tmp/devpi-clientdir'',
                PStr ''https://pkg.example.com''], cwd = None\<rparr>,
      \<lparr>argv = [PStr ''devpi'', PStr ''login'', PStr ''--clientdir'', PStr ''/tmp/devpi-clientdir'',
                PStr ''ci'', PStr ''--password'', PStr ''''], cwd = None\<rparr>,
      \<lparr>argv = [PStr ''devpi'', PStr ''use'', PStr ''--clientdir'', PStr ''/tmp/devpi-clientdir'',
                PStr ''root/dev''], cwd = None\<rparr>,
      \<lparr>argv = [PStr ''devpi'', PStr ''upload'', PStr ''--clientdir'', PStr ''/tmp/devpi-clientdir'',
                PStr ''--from-dir'', PStr ''--no-vcs'',
                PStr ''/ws/a.whl'', PStr ''/ws/b.whl'', PStr ''/ws/a.whl''],
        cwd = Some (PStr ''/ws'')\<rparr>]"
    using T [OF p, THEN conjunct1]
    by (simp add: w0_def sample_fields use_invocation_def login_invocation_def
        upload_invocation_def DEFAULT_CLIENTDIR_def)
  have b: "create_index_invocation DEFAULT_CLIENTDIR (PStr ''root/dev'')
       \<notin> set (issued (snd (main ?E (PDict sample_payload) w0)))"
    using T [OF p, THEN conjunct2] e by blast
  from sample_accepted [of wheels "[]" w0] a b show ?thesis
    by blast
qed

text \<open>
  C4 as stated fails: on a fully valid payload whose first command returns code 1 one
  command is started, not four.
\<close>

theorem valid_run_first_step_fails_counterexample:
  "check_vargs (script_env wheels [1]) (PDict sample_vargs) w0 = (Returned (), w0)
   \<and> map_of sample_payload ''workspace'' = Some (PDict [(''path'', PStr ''/ws'')])
   \<and> main (script_env wheels [1]) (PDict sample_payload) w0 =
       (Exited 1,
        \<lparr>printed = [],
         issued = [\<lparr>argv = [PStr ''devpi'', PStr ''use'', PStr ''--clientdir'',
                             PStr ''/tmp/devpi-clientdir'', PStr ''https://pkg.example.com''],
                     cwd = None\<rparr>]\<rparr>)"
proof -
  have "main (script_env wheels [1]) (PDict sample_payload) w0 =
      (Exited 1, started w0 [use_invocation DEFAULT_CLIENTDIR (PStr ''https://pkg.example.com'')])"
    by (simp add: main_run [OF sample_vargs_bound sample_accepted sample_server refl refl refl]
        spawn_script_env answers_def w0_def)
  then show ?thesis
    by (simp add: sample_accepted sample_workspace started_def w0_def use_invocation_def
        DEFAULT_CLIENTDIR_def)
qed

end
